theory Spec2Isabelle
  imports Complex_Main
begin

section \<open>Data model of \<open>VoxelLoader.js\<close>\<close>

text \<open>
  JavaScript numbers are modelled as exact reals: the embedding is an exact-arithmetic
  idealisation of IEEE doubles, so NaN and the infinities have no counterpart here.
  Objects that the source mutates in place and shares by reference (buffer geometries,
  materials) live in an explicit store and are named by their address.
\<close>

datatype vec3 = Vec3 (vx: real) (vy: real) (vz: real)

datatype rgb = Rgb (chan_r: real) (chan_g: real) (chan_b: real)

text \<open>An attribute record of a leaf: an object whose \<open>color\<close> property may be missing.\<close>

record attr =
  acolor :: "rgb option"

text \<open>
  \<open>leaf.data\<close> of a point octant: the parallel arrays \<open>points\<close> and \<open>data\<close>.
  A leaf is its \<open>data\<close> property, \<open>None\<close> when that is null; an octree is the
  sequence of leaves that \<open>octree.leaves()\<close> yields.
\<close>

record pointData =
  points :: "vec3 list"
  data :: "attr list"

type_synonym leaf = "pointData option"

type_synonym octree = "leaf list"

text \<open>
  A buffer geometry with the attributes the loader reads or writes: the vertex positions,
  the optional per-vertex colours and the triangle index (three entries per triangle).
  Normals and texture coordinates are present on every box alike and are not modelled;
  \<open>computeFaceNormals\<close> and \<open>computeVertexNormals\<close> touch nothing else.
\<close>

record geometry =
  position :: "vec3 list"
  color :: "vec3 list option"
  index :: "nat list"

text \<open>A material: its base colour and its \<open>vertexColors\<close> mode (three.js constants).\<close>

record material =
  mcolor :: nat
  vertexColors :: nat

definition NoColors :: nat where "NoColors = 0"

definition VertexColors :: nat where "VertexColors = 2"

type_synonym ref = nat

record store =
  geoms :: "geometry list"
  mats :: "material list"

record mesh =
  mgeometry :: ref
  mmaterial :: ref

text \<open>The fields of a \<open>VoxelLoader\<close> instance that mesh generation uses.\<close>

record loader =
  lmaterial :: ref
  voxelSize :: real

text \<open>
  \<open>TypeError\<close> is what the JavaScript runtime raises on a property read of
  \<open>undefined\<close> or \<open>null\<close>. The other two are the error names of the specification;
  the source has no statement that raises them.
\<close>

datatype error = TypeError | EmptyResultError | InvalidConfigurationError

section \<open>Vectors and rounding\<close>

definition vec_add :: "vec3 \<Rightarrow> vec3 \<Rightarrow> vec3" where
  "vec_add a b = Vec3 (vx a + vx b) (vy a + vy b) (vz a + vz b)"

definition vec_neg :: "vec3 \<Rightarrow> vec3" where
  "vec_neg a = Vec3 (- vx a) (- vy a) (- vz a)"

text \<open>\<open>divideScalar(s)\<close> multiplies by \<open>1 / s\<close>; over the reals that is the quotient.\<close>

definition divideScalar :: "vec3 \<Rightarrow> real \<Rightarrow> vec3" where
  "divideScalar a s = Vec3 (vx a / s) (vy a / s) (vz a / s)"

text \<open>\<open>Math.round\<close> rounds to the nearest integer, a tie going up.\<close>

definition Math_round :: "real \<Rightarrow> real" where
  "Math_round v = of_int \<lfloor>v + 1 / 2\<rfloor>"

definition round2 :: "real \<Rightarrow> real" where
  "round2 v = Math_round (v * 100) / 100"

section \<open>The three.js operations the loader calls\<close>

text \<open>
  \<open>BoxGeometry\<close>, \<open>translate\<close> and \<open>mergeBufferGeometries\<close> belong to the three.js
  library. They are written here after the library: a box with one segment per side is
  six planes of four vertices and two triangles each, no vertex shared between planes.
\<close>

datatype axis = AX | AY | AZ

fun setComponent :: "axis \<Rightarrow> real \<Rightarrow> vec3 \<Rightarrow> vec3" where
  "setComponent AX a (Vec3 x y z) = Vec3 a y z"
| "setComponent AY a (Vec3 x y z) = Vec3 x a z"
| "setComponent AZ a (Vec3 x y z) = Vec3 x y a"

definition planeVertex ::
  "axis \<Rightarrow> axis \<Rightarrow> axis \<Rightarrow> real \<Rightarrow> real \<Rightarrow> real \<Rightarrow> real \<Rightarrow> real \<Rightarrow> nat \<Rightarrow> nat \<Rightarrow> vec3" where
  "planeVertex u v w udir vdir width height depth iy ix =
     (let xc = real ix * (width / 1) - width / 2;
          yc = real iy * (height / 1) - height / 2
      in setComponent w (depth / 2)
           (setComponent v (yc * vdir) (setComponent u (xc * udir) (Vec3 0 0 0))))"

definition buildPlane ::
  "axis \<Rightarrow> axis \<Rightarrow> axis \<Rightarrow> real \<Rightarrow> real \<Rightarrow> real \<Rightarrow> real \<Rightarrow> real \<Rightarrow> geometry \<Rightarrow> geometry" where
  "buildPlane u v w udir vdir width height depth g =
     (let numberOfVertices = length (position g);
          pv = planeVertex u v w udir vdir width height depth;
          a = numberOfVertices;
          b = numberOfVertices + 2;
          c = numberOfVertices + 3;
          d = numberOfVertices + 1
      in g\<lparr>position := position g @ [pv 0 0, pv 0 1, pv 1 0, pv 1 1],
            index := index g @ [a, b, d, b, c, d]\<rparr>)"

definition BoxGeometry :: "real \<Rightarrow> real \<Rightarrow> real \<Rightarrow> geometry" where
  "BoxGeometry width height depth =
     buildPlane AX AY AZ (- 1) (- 1) width height (- depth)
       (buildPlane AX AY AZ 1 (- 1) width height depth
         (buildPlane AX AZ AY 1 (- 1) width depth (- height)
           (buildPlane AX AZ AY 1 1 width depth height
             (buildPlane AZ AY AX 1 (- 1) depth height (- width)
               (buildPlane AZ AY AX (- 1) (- 1) depth height width
                 \<lparr>position = [], color = None, index = []\<rparr>)))))"

text \<open>\<open>geometry.translate(x, y, z)\<close> moves every vertex, in place.\<close>

definition translate :: "vec3 \<Rightarrow> geometry \<Rightarrow> geometry" where
  "translate p g = g\<lparr>position := map (\<lambda>q. vec_add q p) (position g)\<rparr>"

text \<open>
  The colour loop of lines 126 to 130: a fresh colour attribute with one entry per
  vertex, each set to the normalised colour. The global \<open>THREE\<close> that line 127 reads
  is taken to be bound to the three.js namespace.
\<close>

definition setColor :: "rgb \<Rightarrow> geometry \<Rightarrow> geometry" where
  "setColor c g =
     g\<lparr>color := Some (replicate (length (position g))
                        (Vec3 (chan_r c / 255) (chan_g c / 255) (chan_b c / 255)))\<rparr>"

text \<open>
  \<open>mergeBufferGeometries([a, b])\<close> gives null when the two geometries do not carry the
  same attributes, and otherwise a new geometry: attributes concatenated, the indices of
  \<open>b\<close> shifted by the vertex count of \<open>a\<close>.
\<close>

definition mergeBufferGeometries :: "geometry \<Rightarrow> geometry \<Rightarrow> geometry option" where
  "mergeBufferGeometries a b =
     (case (color a, color b) of
        (None, None) \<Rightarrow>
          Some \<lparr>position = position a @ position b, color = None,
                index = index a @ map (\<lambda>i. i + length (position a)) (index b)\<rparr>
      | (Some ca, Some cb) \<Rightarrow>
          Some \<lparr>position = position a @ position b, color = Some (ca @ cb),
                index = index a @ map (\<lambda>i. i + length (position a)) (index b)\<rparr>
      | _ \<Rightarrow> None)"

section \<open>The store\<close>

definition alloc :: "'a \<Rightarrow> 'a list \<Rightarrow> ref \<times> 'a list" where
  "alloc v h = (length h, h @ [v])"

definition update_at :: "ref \<Rightarrow> ('a \<Rightarrow> 'a) \<Rightarrow> 'a list \<Rightarrow> 'a list" where
  "update_at a f h = h[a := f (h ! a)]"

section \<open>Configuration\<close>

text \<open>
  \<open>setVoxelMaterial(material)\<close>: the default material is constructed first, whatever the
  argument; the chosen object has its \<open>vertexColors\<close> set in place and its reference kept.
\<close>

definition setVoxelMaterial :: "ref option \<Rightarrow> loader \<times> store \<Rightarrow> loader \<times> store" where
  "setVoxelMaterial marg ls =
     (case ls of (l, s) \<Rightarrow>
       (let (defaultMaterial, ms) = alloc \<lparr>mcolor = 16777215, vertexColors = NoColors\<rparr> (mats s);
            m = (case marg of Some m' \<Rightarrow> m' | None \<Rightarrow> defaultMaterial);
            ms' = update_at m (\<lambda>mat. mat\<lparr>vertexColors := VertexColors\<rparr>) ms
        in (l\<lparr>lmaterial := m\<rparr>, s\<lparr>mats := ms'\<rparr>)))"

text \<open>\<open>setVoxelSize(voxelSize = 1)\<close>: the argument, or 1 when it is left out, is stored.\<close>

definition setVoxelSize :: "real option \<Rightarrow> loader \<Rightarrow> loader" where
  "setVoxelSize varg l = l\<lparr>voxelSize := (case varg of Some v \<Rightarrow> v | None \<Rightarrow> 1)\<rparr>"

section \<open>Mesh generation\<close>

text \<open>
  The inner loop of lines 105 to 114 over the points of one leaf: the running sum, the
  component-wise minimum and the component-wise maximum.
\<close>

fun scanPoints :: "vec3 list \<Rightarrow> vec3 \<times> vec3 \<times> vec3 \<Rightarrow> vec3 \<times> vec3 \<times> vec3" where
  "scanPoints [] acc = acc"
| "scanPoints (point # rest) (pos, mn, mx) =
     scanPoints rest
       (vec_add pos point,
        Vec3 (min (vx mn) (vx point)) (min (vy mn) (vy point)) (min (vz mn) (vz point)),
        Vec3 (max (vx mx) (vx point)) (max (vy mx) (vy point)) (max (vz mx) (vz point)))"

text \<open>
  Lines 100 to 121 for the points of one leaf: the box dimensions width, height and depth
  and the position \<open>pos\<close> after \<open>divideScalar\<close>. Reading \<open>points[0].x\<close> of
  an empty array is a TypeError (the guard of line 99 keeps the loop from it).
\<close>

definition voxelBox :: "real \<Rightarrow> vec3 list \<Rightarrow> error + real \<times> real \<times> real \<times> vec3" where
  "voxelBox vs pts =
     (case pts of
        [] \<Rightarrow> Inl TypeError
      | p0 # _ \<Rightarrow>
         (case scanPoints pts (Vec3 0 0 0, p0, p0) of (pos, mn, mx) \<Rightarrow>
            Inr (round2 (vs + (vx mx - vx mn)),
                 round2 (vs + (vy mx - vy mn)),
                 round2 (vs + (vz mx - vz mn)),
                 divideScalar pos (real (length pts)))))"

text \<open>
  The body of the outer loop (lines 100 to 136) for a leaf with at least one point.
  \<open>mg\<close> is the variable \<open>mergedGeometry\<close>: \<open>None\<close> while it is undefined or null,
  else the address of a geometry. On the first leaf it becomes the address of
  \<open>voxelGeometry\<close> itself, so the translation back on line 136 moves that geometry too.
  Reading \<open>color\<close> of a missing first attribute record is a TypeError.
\<close>

definition voxelStep ::
  "real \<Rightarrow> pointData \<Rightarrow> geometry list \<times> ref option \<Rightarrow> error + geometry list \<times> ref option" where
  "voxelStep vs d hm =
     (case hm of (h, mg) \<Rightarrow>
      (case voxelBox vs (points d) of
         Inl e \<Rightarrow> Inl e
       | Inr (width, height, depth, pos) \<Rightarrow>
          (case alloc (BoxGeometry width height depth) h of (voxelGeometry, h1) \<Rightarrow>
            (case data d of
               [] \<Rightarrow> Inl TypeError
             | rec # _ \<Rightarrow>
                (let h2 = (case acolor rec of
                             None \<Rightarrow> h1
                           | Some c \<Rightarrow> update_at voxelGeometry (setColor c) h1);
                     h3 = update_at voxelGeometry (translate pos) h2;
                     (mg', h4) =
                       (case mg of
                          None \<Rightarrow> (Some voxelGeometry, h3)
                        | Some m \<Rightarrow>
                           (case mergeBufferGeometries (h3 ! m) (h3 ! voxelGeometry) of
                              None \<Rightarrow> (None, h3)
                            | Some g \<Rightarrow> (case alloc g h3 of (a, h') \<Rightarrow> (Some a, h'))));
                     h5 = update_at voxelGeometry (translate (vec_neg pos)) h4
                 in Inr (h5, mg'))))))"

text \<open>The loop over the leaves (line 98), with the guard of line 99.\<close>

fun leavesLoop ::
  "real \<Rightarrow> leaf list \<Rightarrow> geometry list \<times> ref option \<Rightarrow> error + geometry list \<times> ref option" where
  "leavesLoop vs [] hm = Inr hm"
| "leavesLoop vs (lf # rest) hm =
     (case lf of
        None \<Rightarrow> leavesLoop vs rest hm
      | Some d \<Rightarrow>
         (if points d = [] then leavesLoop vs rest hm
          else (case voxelStep vs d hm of
                  Inl e \<Rightarrow> Inl e
                | Inr hm' \<Rightarrow> leavesLoop vs rest hm')))"

text \<open>
  \<open>generateMesh(octree)\<close>: after the loop, \<open>mergedGeometry.computeFaceNormals()\<close> is a
  TypeError when no geometry was kept; otherwise the mesh pairs the merged geometry with
  the loader's material, by reference.
\<close>

definition generateMesh :: "loader \<Rightarrow> store \<Rightarrow> octree \<Rightarrow> error + mesh \<times> store" where
  "generateMesh l s oct =
     (case leavesLoop (voxelSize l) oct (geoms s, None) of
        Inl e \<Rightarrow> Inl e
      | Inr (h, None) \<Rightarrow> Inl TypeError
      | Inr (h, Some m) \<Rightarrow> Inr (\<lparr>mgeometry = m, mmaterial = lmaterial l\<rparr>, s\<lparr>geoms := h\<rparr>))"

section \<open>Notions of the specification\<close>

text \<open>
  The words of the specification, to compare the loop with: the extent of a point
  sequence along one axis (largest minus smallest coordinate), the arithmetic mean of
  the points, and the normalised colour.
\<close>

definition extent :: "(vec3 \<Rightarrow> real) \<Rightarrow> vec3 list \<Rightarrow> real" where
  "extent c pts = Max (c ` set pts) - Min (c ` set pts)"

definition mean :: "vec3 list \<Rightarrow> vec3" where
  "mean pts =
     Vec3 (sum_list (map vx pts) / real (length pts))
          (sum_list (map vy pts) / real (length pts))
          (sum_list (map vz pts) / real (length pts))"

definition normalized :: "rgb \<Rightarrow> vec3" where
  "normalized c = Vec3 (chan_r c / 255) (chan_g c / 255) (chan_b c / 255)"

text \<open>
  The leaves that pass the guard of line 99, in traversal order, and whether the first
  attribute record of a leaf carries a colour.
\<close>

fun nonEmptyLeaves :: "octree \<Rightarrow> pointData list" where
  "nonEmptyLeaves [] = []"
| "nonEmptyLeaves (None # rest) = nonEmptyLeaves rest"
| "nonEmptyLeaves (Some d # rest) =
     (if points d = [] then nonEmptyLeaves rest else d # nonEmptyLeaves rest)"

definition hasColor :: "pointData \<Rightarrow> bool" where
  "hasColor d = (case data d of [] \<Rightarrow> False | rec # _ \<Rightarrow> acolor rec \<noteq> None)"

text \<open>
  The index buffer of one box (twelve triangles over its own 24 vertices), and that of
  \<open>k\<close> independent boxes: box \<open>j\<close> refers to the vertices \<open>24 j\<close> to \<open>24 j + 23\<close> only.
  A geometry is \<open>k\<close> boxes when it has \<open>24 k\<close> vertices and that index buffer;
  \<open>c\<close> tells whether it carries a colour attribute.
\<close>

definition boxIndex :: "nat list" where
  "boxIndex = [0, 2, 1, 2, 3, 1, 4, 6, 5, 6, 7, 5, 8, 10, 9, 10, 11, 9,
               12, 14, 13, 14, 15, 13, 16, 18, 17, 18, 19, 17, 20, 22, 21, 22, 23, 21]"

definition boxesIndex :: "nat \<Rightarrow> nat list" where
  "boxesIndex k = concat (map (\<lambda>j. map (\<lambda>i. i + 24 * j) boxIndex) [0..<k])"

definition isBoxes :: "nat \<Rightarrow> bool \<Rightarrow> geometry \<Rightarrow> bool" where
  "isBoxes k c g \<longleftrightarrow>
     length (position g) = 24 * k \<and> index g = boxesIndex k \<and> (color g \<noteq> None) = c"

text \<open>The loop invariant: after \<open>k\<close> processed leaves \<open>mergedGeometry\<close> holds \<open>k\<close> boxes.\<close>

definition boxesInv :: "nat \<Rightarrow> bool \<Rightarrow> geometry list \<times> ref option \<Rightarrow> bool" where
  "boxesInv k c hm =
     (case hm of (h, mg) \<Rightarrow>
        (case mg of None \<Rightarrow> k = 0 | Some m \<Rightarrow> 0 < k \<and> m < length h \<and> isBoxes k c (h ! m)))"

text \<open>A loader, a store and a leaf for the concrete runs below.\<close>

definition exampleLoader :: loader where
  "exampleLoader = \<lparr>lmaterial = 0, voxelSize = 1\<rparr>"

definition exampleStore :: store where
  "exampleStore = \<lparr>geoms = [], mats = [\<lparr>mcolor = 16777215, vertexColors = VertexColors\<rparr>]\<rparr>"

definition twoPointLeaf :: pointData where
  "twoPointLeaf = \<lparr>points = [Vec3 4 0 0, Vec3 6 0 0], data = [\<lparr>acolor = None\<rparr>]\<rparr>"

section \<open>The point scan computes extrema and mean\<close>

lemma Min_insert_min:
  fixes a b :: real
  assumes "finite S"
  shows "Min (insert (min a b) S) = Min (insert a (insert b S))"
  using assms by (cases "S = {}") (simp_all add: min.assoc)

lemma Max_insert_max:
  fixes a b :: real
  assumes "finite S"
  shows "Max (insert (max a b) S) = Max (insert a (insert b S))"
  using assms by (cases "S = {}") (simp_all add: max.assoc)

lemma scanPoints_fold:
  "scanPoints pts (pos, mn, mx) =
     (Vec3 (vx pos + sum_list (map vx pts)) (vy pos + sum_list (map vy pts))
           (vz pos + sum_list (map vz pts)),
      Vec3 (Min (insert (vx mn) (vx ` set pts))) (Min (insert (vy mn) (vy ` set pts)))
           (Min (insert (vz mn) (vz ` set pts))),
      Vec3 (Max (insert (vx mx) (vx ` set pts))) (Max (insert (vy mx) (vy ` set pts)))
           (Max (insert (vz mx) (vz ` set pts))))"
proof (induction pts arbitrary: pos mn mx)
  case Nil
  show ?case by simp
next
  case (Cons p ps)
  show ?case
    by (simp add: Cons.IH vec_add_def Min_insert_min Max_insert_max add.assoc)
qed

lemma voxelBox_extrema:
  assumes "pts \<noteq> []"
  shows "voxelBox vs pts =
           Inr (round2 (vs + extent vx pts), round2 (vs + extent vy pts),
                round2 (vs + extent vz pts), mean pts)"
proof -
  from assms obtain p0 rest where pts: "pts = p0 # rest"
    by (cases pts) auto
  have ins: "\<And>c. insert (c p0) (c ` set pts) = c ` set pts"
    by (auto simp: pts)
  show ?thesis
    unfolding voxelBox_def extent_def mean_def
    by (simp add: pts scanPoints_fold divideScalar_def insert_absorb del: scanPoints.simps)
qed

lemma extent_nonneg:
  assumes "pts \<noteq> []"
  shows "0 \<le> extent c pts"
proof -
  have "Min (c ` set pts) \<le> Max (c ` set pts)"
    using assms by (intro Min_le_iff[THEN iffD2]) auto
  then show ?thesis by (simp add: extent_def)
qed

section \<open>Rounding to two decimals\<close>

lemma round2_mono: "a \<le> b \<Longrightarrow> round2 a \<le> round2 b"
  by (simp add: round2_def Math_round_def divide_right_mono floor_mono)

lemma round2_lower: "v - 1 / 200 < round2 v"
proof -
  have "v * 100 + 1 / 2 - 1 < of_int \<lfloor>v * 100 + 1 / 2\<rfloor>"
    by linarith
  then show ?thesis
    by (simp add: round2_def Math_round_def field_simps)
qed

lemma round2_hundredths: "round2 (of_int k / 100) = of_int k / 100"
  by (simp add: round2_def Math_round_def)

lemma round2_two_decimals:
  assumes "\<exists>k::int. v = of_int k / 100"
  shows "round2 v = v"
proof -
  from assms obtain k :: int where "v = of_int k / 100"
    by blast
  then show ?thesis
    by (simp only: round2_hundredths)
qed

section \<open>Facts about the geometry operations\<close>

lemma translate_back: "translate (vec_neg p) (translate p g) = g"
  by (simp add: translate_def vec_add_def vec_neg_def comp_def)

lemma update_at_back:
  "update_at a (translate (vec_neg p)) (update_at a (translate p) h) = h"
  by (cases "a < length h") (simp_all add: update_at_def translate_back list_update_beyond)

lemma translate_fields:
  "position (translate p g) = map (\<lambda>q. vec_add q p) (position g)"
  "color (translate p g) = color g"
  "index (translate p g) = index g"
  by (simp_all add: translate_def)

lemma buildPlane_lit:
  "buildPlane u v w udir vdir width height depth \<lparr>position = ps, color = c, index = ix\<rparr> =
     \<lparr>position = ps @ [planeVertex u v w udir vdir width height depth 0 0,
                          planeVertex u v w udir vdir width height depth 0 1,
                          planeVertex u v w udir vdir width height depth 1 0,
                          planeVertex u v w udir vdir width height depth 1 1],
      color = c,
      index = ix @ [length ps, length ps + 2, length ps + 1,
                    length ps + 2, length ps + 3, length ps + 1]\<rparr>"
  by (simp add: buildPlane_def Let_def)

lemma BoxGeometry_position_length: "length (position (BoxGeometry w h d)) = 24"
  by (simp add: BoxGeometry_def buildPlane_lit)

lemma BoxGeometry_index: "index (BoxGeometry w h d) = boxIndex"
  by (simp add: BoxGeometry_def buildPlane_lit boxIndex_def)

lemma BoxGeometry_color: "color (BoxGeometry w h d) = None"
  by (simp add: BoxGeometry_def buildPlane_lit)

lemma BoxGeometry_3_1_1_vx:
  "vx ` set (position (BoxGeometry 3 1 1)) = {- (3 / 2), 3 / 2}"
  by (simp add: BoxGeometry_def buildPlane_lit planeVertex_def insert_commute)

lemma boxesIndex_0: "boxesIndex 0 = []"
  by (simp add: boxesIndex_def)

lemma boxesIndex_Suc: "boxesIndex (Suc k) = boxesIndex k @ map (\<lambda>i. i + 24 * k) boxIndex"
  by (simp add: boxesIndex_def)

lemma boxesIndex_one: "boxesIndex (Suc 0) = boxIndex"
  by (simp add: boxesIndex_def)

lemma length_boxIndex: "length boxIndex = 36"
  by (simp add: boxIndex_def)

lemma length_boxesIndex: "length (boxesIndex k) = 36 * k"
proof (induction k)
  case 0
  show ?case by (simp add: boxesIndex_def)
next
  case (Suc k)
  then show ?case by (simp add: boxesIndex_Suc length_boxIndex)
qed

lemma isBoxes_box:
  "isBoxes (Suc 0) False (translate q (translate p (BoxGeometry w h d)))"
  "isBoxes (Suc 0) True (translate q (translate p (setColor c (BoxGeometry w h d))))"
  by (simp_all add: isBoxes_def translate_def setColor_def BoxGeometry_position_length
        BoxGeometry_index BoxGeometry_color boxesIndex_one)

lemma isBoxes_merge:
  assumes "isBoxes k c a" and "isBoxes (Suc 0) c b"
  shows "\<exists>g. mergeBufferGeometries a b = Some g \<and> isBoxes (Suc k) c g"
proof (cases "color a")
  case None
  then have "color b = None"
    using assms by (auto simp: isBoxes_def)
  with None assms show ?thesis
    by (simp add: isBoxes_def mergeBufferGeometries_def boxesIndex_Suc boxesIndex_0)
next
  case (Some ca)
  then obtain cb where "color b = Some cb"
    using assms by (auto simp: isBoxes_def)
  with Some assms show ?thesis
    by (simp add: isBoxes_def mergeBufferGeometries_def boxesIndex_Suc boxesIndex_0)
qed

section \<open>The loop over the leaves\<close>

lemma voxelStep_boxes:
  assumes inv: "boxesInv k c (h, mg)"
    and pts: "points d \<noteq> []"
    and rec: "data d = rec # recs"
    and col: "(acolor rec \<noteq> None) = c"
  shows "\<exists>h' mg'. voxelStep vs d (h, mg) = Inr (h', mg') \<and> boxesInv (Suc k) c (h', mg')"
proof (cases mg)
  case None
  then have k: "k = 0" using inv by (simp add: boxesInv_def)
  show ?thesis
  proof (cases "acolor rec")
    case nc: None
    then have c: "c = False" using col by simp
    show ?thesis
      unfolding c k
      by (simp add: voxelStep_def voxelBox_extrema[OF pts] rec alloc_def update_at_def
          boxesInv_def isBoxes_box None nc)
  next
    case sc: (Some cl)
    then have c: "c = True" using col by simp
    show ?thesis
      unfolding c k
      by (simp add: voxelStep_def voxelBox_extrema[OF pts] rec alloc_def update_at_def
          boxesInv_def isBoxes_box None sc)
  qed
next
  case (Some m)
  then have m: "m < length h" and a: "isBoxes k c (h ! m)" and k: "0 < k"
    using inv by (simp_all add: boxesInv_def)
  show ?thesis
  proof (cases "acolor rec")
    case None
    then have c: "c = False" using col by simp
    let ?b = "translate (mean (points d))
                (BoxGeometry (round2 (vs + extent vx (points d)))
                   (round2 (vs + extent vy (points d))) (round2 (vs + extent vz (points d))))"
    have "isBoxes (Suc 0) c ?b"
      unfolding c using isBoxes_box(1)[of "Vec3 0 0 0"]
      by (simp add: isBoxes_def translate_def)
    from isBoxes_merge[OF a this] obtain g where
      g: "mergeBufferGeometries (h ! m) ?b = Some g" "isBoxes (Suc k) c g" by blast
    show ?thesis
      using m g None Some
      by (simp add: voxelStep_def voxelBox_extrema[OF pts] rec alloc_def update_at_def
          boxesInv_def nth_append)
  next
    case sc: (Some cl)
    then have c: "c = True" using col by simp
    let ?b = "translate (mean (points d))
                (setColor cl (BoxGeometry (round2 (vs + extent vx (points d)))
                   (round2 (vs + extent vy (points d))) (round2 (vs + extent vz (points d)))))"
    have "isBoxes (Suc 0) c ?b"
      unfolding c using isBoxes_box(2)[of "Vec3 0 0 0"]
      by (simp add: isBoxes_def translate_def)
    from isBoxes_merge[OF a this] obtain g where
      g: "mergeBufferGeometries (h ! m) ?b = Some g" "isBoxes (Suc k) c g" by blast
    show ?thesis
      using m g sc Some
      by (simp add: voxelStep_def voxelBox_extrema[OF pts] rec alloc_def update_at_def
          boxesInv_def nth_append)
  qed
qed

lemma voxelStep_missing_record:
  assumes "data d = []"
  shows "voxelStep vs d hm = Inl TypeError"
proof (cases "points d = []")
  case True
  then show ?thesis
    by (cases hm) (simp add: voxelStep_def voxelBox_def)
next
  case False
  show ?thesis
    using assms by (cases hm) (simp add: voxelStep_def voxelBox_extrema[OF False] alloc_def)
qed

lemma leavesLoop_skip: "leavesLoop vs oct hm = leavesLoop vs (map Some (nonEmptyLeaves oct)) hm"
proof (induction oct arbitrary: hm)
  case Nil
  show ?case by simp
next
  case (Cons lf rest)
  show ?case
  proof (cases lf)
    case None
    then show ?thesis by (simp add: Cons.IH)
  next
    case (Some d)
    then show ?thesis
      by (cases "voxelStep vs d hm") (simp_all add: Cons.IH)
  qed
qed

lemma leavesLoop_boxes:
  assumes "boxesInv k c hm"
    and "\<forall>d \<in> set (nonEmptyLeaves oct). data d \<noteq> [] \<and> hasColor d = c"
  shows "\<exists>hm'. leavesLoop vs oct hm = Inr hm' \<and>
           boxesInv (k + length (nonEmptyLeaves oct)) c hm'"
  using assms
proof (induction oct arbitrary: k hm)
  case Nil
  then show ?case by simp
next
  case (Cons lf rest)
  show ?case
  proof (cases lf)
    case None
    with Cons show ?thesis by simp
  next
    case (Some d)
    show ?thesis
    proof (cases "points d = []")
      case True
      with Some Cons show ?thesis by simp
    next
      case False
      from Cons.prems(2) Some False obtain rec recs where
        rec: "data d = rec # recs" and col: "(acolor rec \<noteq> None) = c"
        by (cases "data d") (auto simp: hasColor_def)
      obtain h mg where hm: "hm = (h, mg)" by (cases hm)
      from voxelStep_boxes[OF Cons.prems(1)[unfolded hm] False rec col, of vs]
      obtain h' mg' where
        st: "voxelStep vs d (h, mg) = Inr (h', mg')" and inv': "boxesInv (Suc k) c (h', mg')"
        by blast
      from Cons.prems(2) Some False
      have rest: "\<forall>d \<in> set (nonEmptyLeaves rest). data d \<noteq> [] \<and> hasColor d = c"
        by simp
      from Cons.IH[OF inv' rest] show ?thesis
        using Some False st hm by simp
    qed
  qed
qed

text \<open>The definitions that a concrete run unfolds.\<close>

lemmas run_defs = generateMesh_def voxelStep_def voxelBox_def alloc_def update_at_def
  vec_add_def divideScalar_def round2_def Math_round_def translate_back Let_def

section \<open>The claims\<close>

subsection \<open>C1: box dimensions and centre\<close>

text \<open>
  The dimensions are as the specification has them: for a leaf with at least one point
  the scan yields the rounded padded extents and the mean (lemma \<open>voxelBox_extrema\<close>).
  The centre is not: on the leaf that initialises \<open>mergedGeometry\<close>, that variable and
  \<open>voxelGeometry\<close> are one object, and line 136 moves it back to the origin. A later
  leaf is merged into a fresh geometry and stays at its mean.

  So the mesh of an octree with a single leaf is the box in local space, whatever the
  points of the leaf are; in an octree with two leaves the second box is moved by its
  mean (0,10,0) and the first is not.
\<close>

lemma generateMesh_single_leaf:
  assumes pts: "points d \<noteq> []" and rec: "data d = rec # recs"
  shows "generateMesh l s [Some d] =
           Inr (\<lparr>mgeometry = length (geoms s), mmaterial = lmaterial l\<rparr>,
                s\<lparr>geoms := geoms s @
                  [(case acolor rec of None \<Rightarrow> (\<lambda>g. g) | Some c \<Rightarrow> setColor c)
                     (BoxGeometry (round2 (voxelSize l + extent vx (points d)))
                                  (round2 (voxelSize l + extent vy (points d)))
                                  (round2 (voxelSize l + extent vz (points d))))]\<rparr>)"
  by (cases "acolor rec")
     (simp_all add: generateMesh_def voxelStep_def voxelBox_extrema[OF pts] rec pts alloc_def
        update_at_def translate_back Let_def)

lemma generateMesh_second_box_at_centroid:
  "generateMesh exampleLoader exampleStore
     [Some twoPointLeaf, Some \<lparr>points = [Vec3 0 10 0], data = [\<lparr>acolor = None\<rparr>]\<rparr>] =
   Inr (\<lparr>mgeometry = 2, mmaterial = 0\<rparr>,
        exampleStore\<lparr>geoms :=
          [BoxGeometry 3 1 1, BoxGeometry 1 1 1,
           \<lparr>position = position (BoxGeometry 3 1 1) @
                         map (\<lambda>q. vec_add q (Vec3 0 10 0)) (position (BoxGeometry 1 1 1)),
            color = None,
            index = boxIndex @ map (\<lambda>i. i + 24) boxIndex\<rparr>]\<rparr>)"
  by (simp add: run_defs mergeBufferGeometries_def translate_fields
      twoPointLeaf_def exampleLoader_def exampleStore_def
      BoxGeometry_color BoxGeometry_index BoxGeometry_position_length)

text \<open>
  Claim C1, at a leaf with the points (4,0,0) and (6,0,0) and voxel size 1: the scan gives a
  box of 3 by 1 by 1 and the mean (5,0,0), as claimed, but the box of the returned mesh is
  the box at the origin, its vertices at x = -1.5 and x = 1.5, not centred at (5,0,0).
\<close>

theorem generateMesh_first_box_at_origin:
  "voxelBox 1 (points twoPointLeaf) = Inr (3, 1, 1, Vec3 5 0 0) \<and>
   generateMesh exampleLoader exampleStore [Some twoPointLeaf] =
     Inr (\<lparr>mgeometry = 0, mmaterial = 0\<rparr>, exampleStore\<lparr>geoms := [BoxGeometry 3 1 1]\<rparr>) \<and>
   vx ` set (position (BoxGeometry 3 1 1)) = {- (3 / 2), 3 / 2}"
  by (simp add: run_defs twoPointLeaf_def exampleLoader_def exampleStore_def BoxGeometry_3_1_1_vx)

subsection \<open>C2: an octree without points\<close>

text \<open>
  Claim C2, as amended: for every octree in which no leaf has a point, \<open>generateMesh\<close>
  fails, with the TypeError of reading a property of the undefined merged geometry; it
  returns no mesh.
\<close>

theorem generateMesh_no_points:
  assumes "nonEmptyLeaves oct = []"
  shows "generateMesh l s oct = Inl TypeError"
  by (simp add: generateMesh_def leavesLoop_skip[of _ oct] assms)

text \<open>
  The amended claim at an octree of one null leaf and one leaf with an empty point array.
\<close>

theorem generateMesh_no_points_witness:
  "nonEmptyLeaves [None, Some \<lparr>points = [], data = []\<rparr>] = [] \<and>
   generateMesh exampleLoader exampleStore [None, Some \<lparr>points = [], data = []\<rparr>] = Inl TypeError"
  using generateMesh_no_points[of "[None, Some \<lparr>points = [], data = []\<rparr>]" exampleLoader exampleStore]
  by simp

text \<open>
  Claim C2 as stated fails: on an octree whose only leaf has no points the error is not
  \<open>EmptyResultError\<close>.
\<close>

theorem generateMesh_no_points_not_EmptyResultError:
  "generateMesh exampleLoader exampleStore [Some \<lparr>points = [], data = []\<rparr>] \<noteq> Inl EmptyResultError"
  by (simp add: generateMesh_def)

subsection \<open>C3: one box per leaf with points\<close>

text \<open>
  Claim C3, as amended: for every octree with K >= 1 leaves that have a point, each of
  them with a first attribute record and all of them alike in whether that record has a
  colour, \<open>generateMesh\<close> returns a mesh whose geometry is exactly K independent boxes:
  24 K vertices, the index buffer of K boxes, 12 K triangles. Leaves without points
  contribute nothing: the result is that of the octree with those leaves removed.
\<close>

theorem generateMesh_box_count:
  assumes ne: "nonEmptyLeaves oct \<noteq> []"
    and uni: "\<forall>d \<in> set (nonEmptyLeaves oct). data d \<noteq> [] \<and> hasColor d = c"
  shows "\<exists>msh s'. generateMesh l s oct = Inr (msh, s') \<and>
           mgeometry msh < length (geoms s') \<and>
           length (position (geoms s' ! mgeometry msh)) = 24 * length (nonEmptyLeaves oct) \<and>
           index (geoms s' ! mgeometry msh) = boxesIndex (length (nonEmptyLeaves oct)) \<and>
           length (index (geoms s' ! mgeometry msh)) = 3 * (12 * length (nonEmptyLeaves oct)) \<and>
           generateMesh l s (map Some (nonEmptyLeaves oct)) = Inr (msh, s')"
proof -
  have "boxesInv 0 c (geoms s, None)"
    by (simp add: boxesInv_def)
  from leavesLoop_boxes[OF this uni, of "voxelSize l"] obtain h mg where
    run: "leavesLoop (voxelSize l) oct (geoms s, None) = Inr (h, mg)"
    and inv: "boxesInv (length (nonEmptyLeaves oct)) c (h, mg)"
    by auto
  from ne inv obtain m where mg: "mg = Some m" and m: "m < length h"
    and bx: "isBoxes (length (nonEmptyLeaves oct)) c (h ! m)"
    by (cases mg) (auto simp: boxesInv_def)
  have run': "leavesLoop (voxelSize l) (map Some (nonEmptyLeaves oct)) (geoms s, None) = Inr (h, mg)"
    using run leavesLoop_skip[of "voxelSize l" oct] by simp
  have len: "length (index (h ! m)) = 3 * (12 * length (nonEmptyLeaves oct))"
    using bx by (simp add: isBoxes_def length_boxesIndex)
  show ?thesis
    using run run' mg m bx len by (simp add: generateMesh_def isBoxes_def)
qed

text \<open>
  The amended claim at two coloured leaves with points, a null leaf and a leaf without
  points between them: 48 vertices and 72 index entries, that is 24 triangles.
\<close>

theorem generateMesh_box_count_witness:
  "nonEmptyLeaves
     [Some \<lparr>points = [Vec3 0 0 0], data = [\<lparr>acolor = Some (Rgb 255 0 0)\<rparr>]\<rparr>, None,
      Some \<lparr>points = [], data = []\<rparr>,
      Some \<lparr>points = [Vec3 0 0 0, Vec3 2 0 0], data = [\<lparr>acolor = Some (Rgb 0 0 255)\<rparr>]\<rparr>] \<noteq> [] \<and>
   (\<exists>msh s'. generateMesh exampleLoader exampleStore
       [Some \<lparr>points = [Vec3 0 0 0], data = [\<lparr>acolor = Some (Rgb 255 0 0)\<rparr>]\<rparr>, None,
        Some \<lparr>points = [], data = []\<rparr>,
        Some \<lparr>points = [Vec3 0 0 0, Vec3 2 0 0], data = [\<lparr>acolor = Some (Rgb 0 0 255)\<rparr>]\<rparr>] =
       Inr (msh, s') \<and>
     length (position (geoms s' ! mgeometry msh)) = 48 \<and>
     length (index (geoms s' ! mgeometry msh)) = 72)"
  using generateMesh_box_count[of
     "[Some \<lparr>points = [Vec3 0 0 0], data = [\<lparr>acolor = Some (Rgb 255 0 0)\<rparr>]\<rparr>, None,
      Some \<lparr>points = [], data = []\<rparr>,
      Some \<lparr>points = [Vec3 0 0 0, Vec3 2 0 0], data = [\<lparr>acolor = Some (Rgb 0 0 255)\<rparr>]\<rparr>]"
     True exampleLoader exampleStore]
  by (auto simp: hasColor_def)

text \<open>
  Claim C3 as stated fails: a coloured leaf followed by a leaf without colour (K = 2).
  \<open>mergeBufferGeometries\<close> gives null for the two, \<open>mergedGeometry\<close> stays null and
  \<open>generateMesh\<close> ends in a TypeError instead of a geometry of 24 triangles.
\<close>

theorem generateMesh_mixed_colors_TypeError:
  "generateMesh exampleLoader exampleStore
     [Some \<lparr>points = [Vec3 0 0 0], data = [\<lparr>acolor = Some (Rgb 255 0 0)\<rparr>]\<rparr>,
      Some \<lparr>points = [Vec3 0 0 0, Vec3 2 0 0], data = [\<lparr>acolor = None\<rparr>]\<rparr>] = Inl TypeError"
  by (simp add: run_defs setColor_def mergeBufferGeometries_def translate_fields
      exampleLoader_def exampleStore_def BoxGeometry_color)

subsection \<open>C4: the colour attribute\<close>

text \<open>
  Claim C4: for every leaf with at least one point and a first attribute record, the
  loop body succeeds and leaves the box geometry of that leaf (the object allocated at
  the next free address) with 24 vertices and, when the record has a colour, a colour
  attribute of 24 entries, each the normalised colour (r/255, g/255, b/255); when the
  record has no colour, the geometry has no colour attribute.
\<close>

theorem voxelStep_color:
  assumes pts: "points d \<noteq> []" and rec: "data d = rec # recs"
  shows "\<exists>h' mg'. voxelStep vs d (h, mg) = Inr (h', mg') \<and> length h < length h' \<and>
           length (position (h' ! length h)) = 24 \<and>
           color (h' ! length h) =
             (case acolor rec of
                None \<Rightarrow> None
              | Some c \<Rightarrow> Some (replicate 24 (normalized c)))"
  by (cases "acolor rec"; cases mg)
     (simp_all add: voxelStep_def voxelBox_extrema[OF pts] rec alloc_def update_at_def Let_def
        translate_back translate_fields setColor_def normalized_def nth_append
        BoxGeometry_position_length BoxGeometry_color split: option.split)

text \<open>
  Claim C4 at a leaf whose first record has the colour (255, 0, 51).
\<close>

theorem voxelStep_color_witness:
  "points \<lparr>points = [Vec3 1 2 3], data = [\<lparr>acolor = Some (Rgb 255 0 51)\<rparr>]\<rparr> \<noteq> [] \<and>
   (\<exists>h' mg'. voxelStep 1 \<lparr>points = [Vec3 1 2 3], data = [\<lparr>acolor = Some (Rgb 255 0 51)\<rparr>]\<rparr>
                ([], None) = Inr (h', mg') \<and>
      color (h' ! 0) = Some (replicate 24 (Vec3 1 0 (1 / 5))))"
  using voxelStep_color[of "\<lparr>points = [Vec3 1 2 3], data = [\<lparr>acolor = Some (Rgb 255 0 51)\<rparr>]\<rparr>"
      "\<lparr>acolor = Some (Rgb 255 0 51)\<rparr>" "[]" 1 "[]" None]
  by (auto simp: normalized_def)

subsection \<open>C5: dimensions against the voxel size\<close>

text \<open>
  Claim C5, as amended: for every leaf with at least one point and every voxel size,
  each box dimension is at least the voxel size rounded to two decimals, hence more than
  the voxel size less 0.005, and at least the voxel size itself whenever the voxel size is
  a whole number of hundredths.
\<close>

theorem voxelBox_dims_lower_bound:
  assumes "pts \<noteq> []"
  shows "\<exists>w h d pos. voxelBox vs pts = Inr (w, h, d, pos) \<and>
           round2 vs \<le> w \<and> round2 vs \<le> h \<and> round2 vs \<le> d \<and>
           vs - 1 / 200 < w \<and> vs - 1 / 200 < h \<and> vs - 1 / 200 < d \<and>
           ((\<exists>k::int. vs = of_int k / 100) \<longrightarrow> vs \<le> w \<and> vs \<le> h \<and> vs \<le> d)"
proof -
  have ge: "round2 vs \<le> round2 (vs + extent c pts)" for c
    using extent_nonneg[OF assms, of c] by (intro round2_mono) simp
  have gt: "vs - 1 / 200 < round2 (vs + extent c pts)" for c
    using ge[of c] round2_lower[of vs] by linarith
  have hund: "vs \<le> round2 (vs + extent c pts)" if "\<exists>k::int. vs = of_int k / 100" for c
    using ge[of c] round2_two_decimals[OF that] by simp
  show ?thesis
    using ge gt hund by (simp add: voxelBox_extrema[OF assms])
qed

text \<open>
  The amended claim at the points (0,0,0) and (2,0,0) with voxel size 1.
\<close>

theorem voxelBox_dims_lower_bound_witness:
  "[Vec3 0 0 0, Vec3 2 0 0] \<noteq> [] \<and> (\<exists>k::int. (1::real) = of_int k / 100) \<and>
   (\<exists>w h d pos. voxelBox 1 [Vec3 0 0 0, Vec3 2 0 0] = Inr (w, h, d, pos) \<and>
      1 \<le> w \<and> 1 \<le> h \<and> 1 \<le> d)"
proof -
  have k: "\<exists>k::int. (1::real) = of_int k / 100"
    by (rule exI[of _ 100]) simp
  with voxelBox_dims_lower_bound[of "[Vec3 0 0 0, Vec3 2 0 0]" 1] show ?thesis
    by auto
qed

text \<open>
  Claim C5 as stated fails: with the positive voxel size 1/256 a leaf of one point gets
  the dimensions 0, which are below the voxel size.
\<close>

theorem voxelBox_dims_below_voxelSize:
  "voxelBox (1 / 256) [Vec3 0 0 0] = Inr (0, 0, 0, Vec3 0 0 0) \<and> (0::real) < 1 / 256"
  by (simp add: voxelBox_def round2_def Math_round_def vec_add_def divideScalar_def)

subsection \<open>C6: a leaf of one point\<close>

text \<open>
  Claim C6, as amended: for a leaf of exactly one point, width, height and depth all
  equal the voxel size rounded to two decimals, and the position is that point; they
  equal the voxel size itself whenever it is a whole number of hundredths.
\<close>

theorem voxelBox_single_point:
  "voxelBox vs [p] = Inr (round2 vs, round2 vs, round2 vs, p) \<and>
   ((\<exists>k::int. vs = of_int k / 100) \<longrightarrow> voxelBox vs [p] = Inr (vs, vs, vs, p))"
proof -
  have "voxelBox vs [p] = Inr (round2 vs, round2 vs, round2 vs, p)"
    by (cases p) (simp add: voxelBox_def vec_add_def divideScalar_def)
  then show ?thesis
    using round2_two_decimals[of vs] by auto
qed

text \<open>
  The amended claim at voxel size 1 and the point (2,3,4).
\<close>

theorem voxelBox_single_point_witness:
  "(\<exists>k::int. (1::real) = of_int k / 100) \<and> voxelBox 1 [Vec3 2 3 4] = Inr (1, 1, 1, Vec3 2 3 4)"
proof -
  have k: "\<exists>k::int. (1::real) = of_int k / 100"
    by (rule exI[of _ 100]) simp
  with voxelBox_single_point[of 1 "Vec3 2 3 4"] show ?thesis
    by blast
qed

text \<open>
  Claim C6 as stated fails: with voxel size 1/8 the dimensions of a one-point leaf are
  0.13, not 0.125.
\<close>

theorem voxelBox_single_point_rounded:
  "voxelBox (1 / 8) [Vec3 0 0 0] = Inr (13 / 100, 13 / 100, 13 / 100, Vec3 0 0 0) \<and>
   (13 / 100 :: real) \<noteq> 1 / 8"
  by (simp add: voxelBox_def round2_def Math_round_def vec_add_def divideScalar_def)

subsection \<open>C7: a leaf without attribute records\<close>

text \<open>
  Claim C7, at a leaf with the point (0,0,0) and no attribute record: line 123 reads
  \<open>undefined\<close>, line 124 reads its \<open>color\<close>, and \<open>generateMesh\<close> fails with a
  TypeError instead of emitting a box without colour. Lemma \<open>voxelStep_missing_record\<close>
  has it for every such leaf.
\<close>

theorem generateMesh_missing_record_TypeError:
  "generateMesh exampleLoader exampleStore [Some \<lparr>points = [Vec3 0 0 0], data = []\<rparr>] = Inl TypeError"
  by (simp add: run_defs exampleLoader_def exampleStore_def)

subsection \<open>C8: translating there and back\<close>

text \<open>
  Claim C8: for every geometry, a box among them, and every vector p, translating by p and
  then by -p gives back every vertex position; done in place at an address of the store,
  the two translations leave the store as it was.
\<close>

theorem translate_roundtrip:
  "translate (vec_neg p) (translate p g) = g \<and>
   position (translate (vec_neg p) (translate p (BoxGeometry w h d))) = position (BoxGeometry w h d) \<and>
   update_at a (translate (vec_neg p)) (update_at a (translate p) hp) = hp"
  by (simp add: translate_back update_at_back)

subsection \<open>C9: the voxel size is not validated\<close>

text \<open>
  Claim C9, as amended: \<open>setVoxelSize\<close> checks nothing and never fails. Every value
  supplied, a non-positive one too, is stored unchanged (1 when the argument is left
  out), the material is untouched, and \<open>generateMesh\<close> then sizes its boxes with the
  stored value.
\<close>

theorem setVoxelSize_unchecked:
  "voxelSize (setVoxelSize (Some v) l) = v \<and>
   voxelSize (setVoxelSize None l) = 1 \<and>
   lmaterial (setVoxelSize (Some v) l) = lmaterial l \<and>
   generateMesh (setVoxelSize (Some v) l) s [Some \<lparr>points = [p], data = [\<lparr>acolor = None\<rparr>]\<rparr>] =
     Inr (\<lparr>mgeometry = length (geoms s), mmaterial = lmaterial l\<rparr>,
          s\<lparr>geoms := geoms s @ [BoxGeometry (round2 v) (round2 v) (round2 v)]\<rparr>)"
  by (cases p)
     (simp add: setVoxelSize_def generateMesh_def voxelStep_def voxelBox_def alloc_def
        update_at_def vec_add_def divideScalar_def translate_back Let_def)

text \<open>
  Claim C9 as stated fails: the voxel size -1 is accepted, stored, and used by
  \<open>generateMesh\<close>, which builds a box of the dimensions -1.
\<close>

theorem setVoxelSize_negative_used:
  "voxelSize (setVoxelSize (Some (- 1)) exampleLoader) = - 1 \<and>
   generateMesh (setVoxelSize (Some (- 1)) exampleLoader) exampleStore
       [Some \<lparr>points = [Vec3 0 0 0], data = [\<lparr>acolor = None\<rparr>]\<rparr>] =
     Inr (\<lparr>mgeometry = 0, mmaterial = 0\<rparr>,
          exampleStore\<lparr>geoms := [BoxGeometry (- 1) (- 1) (- 1)]\<rparr>)"
  by (simp add: setVoxelSize_def run_defs exampleLoader_def exampleStore_def)

subsection \<open>C10: the material is shared, not copied\<close>

text \<open>
  Claim C10: for every material object m of the store, \<open>setVoxelMaterial(m)\<close> sets the
  \<open>vertexColors\<close> field of that very object, leaves every other object of the caller
  unchanged and keeps the address m in the loader; a mesh that \<open>generateMesh\<close> returns
  afterwards has the same address m as its material, and mesh generation changes no
  material.
\<close>

theorem setVoxelMaterial_shared:
  assumes m: "m < length (mats s)"
    and set: "setVoxelMaterial (Some m) (l, s) = (l', s')"
    and gen: "generateMesh l' s' oct = Inr (msh, s'')"
  shows "lmaterial l' = m \<and>
         mats s' ! m = (mats s ! m)\<lparr>vertexColors := VertexColors\<rparr> \<and>
         (\<forall>j < length (mats s). j \<noteq> m \<longrightarrow> mats s' ! j = mats s ! j) \<and>
         mmaterial msh = m \<and> mats s'' = mats s'"
proof -
  from set have l': "l' = l\<lparr>lmaterial := m\<rparr>"
    and s': "s' = s\<lparr>mats := (mats s @ [\<lparr>mcolor = 16777215, vertexColors = NoColors\<rparr>])
                    [m := (mats s ! m)\<lparr>vertexColors := VertexColors\<rparr>]\<rparr>"
    using m by (simp_all add: setVoxelMaterial_def alloc_def update_at_def nth_append)
  from gen have "mmaterial msh = lmaterial l'" and "mats s'' = mats s'"
    by (auto simp: generateMesh_def split: sum.splits prod.splits option.splits)
  then show ?thesis
    using m by (simp add: l' s' nth_append list_update_append)
qed

text \<open>
  Claim C10 at a store with one blue material and an octree of one leaf.
\<close>

theorem setVoxelMaterial_shared_witness:
  "(0::nat) < length (mats \<lparr>geoms = [], mats = [\<lparr>mcolor = 255, vertexColors = NoColors\<rparr>]\<rparr>) \<and>
   setVoxelMaterial (Some 0)
      (exampleLoader, \<lparr>geoms = [], mats = [\<lparr>mcolor = 255, vertexColors = NoColors\<rparr>]\<rparr>) =
     (exampleLoader,
      \<lparr>geoms = [], mats = [\<lparr>mcolor = 255, vertexColors = VertexColors\<rparr>,
                            \<lparr>mcolor = 16777215, vertexColors = NoColors\<rparr>]\<rparr>) \<and>
   generateMesh exampleLoader
      \<lparr>geoms = [], mats = [\<lparr>mcolor = 255, vertexColors = VertexColors\<rparr>,
                            \<lparr>mcolor = 16777215, vertexColors = NoColors\<rparr>]\<rparr> [Some twoPointLeaf] =
     Inr (\<lparr>mgeometry = 0, mmaterial = 0\<rparr>,
          \<lparr>geoms = [BoxGeometry 3 1 1],
           mats = [\<lparr>mcolor = 255, vertexColors = VertexColors\<rparr>,
                   \<lparr>mcolor = 16777215, vertexColors = NoColors\<rparr>]\<rparr>) \<and>
   mmaterial \<lparr>mgeometry = 0, mmaterial = 0\<rparr> = (0::nat)"
proof -
  let ?s = "\<lparr>geoms = [], mats = [\<lparr>mcolor = 255, vertexColors = NoColors\<rparr>]\<rparr>"
  let ?s' = "\<lparr>geoms = [], mats = [\<lparr>mcolor = 255, vertexColors = VertexColors\<rparr>,
                                     \<lparr>mcolor = 16777215, vertexColors = NoColors\<rparr>]\<rparr>"
  let ?msh = "\<lparr>mgeometry = 0, mmaterial = 0\<rparr>"
  let ?s'' = "\<lparr>geoms = [BoxGeometry 3 1 1],
               mats = [\<lparr>mcolor = 255, vertexColors = VertexColors\<rparr>,
                       \<lparr>mcolor = 16777215, vertexColors = NoColors\<rparr>]\<rparr>"
  have a: "(0::nat) < length (mats ?s)" by simp
  have b: "setVoxelMaterial (Some 0) (exampleLoader, ?s) = (exampleLoader, ?s')"
    by (simp add: setVoxelMaterial_def alloc_def update_at_def exampleLoader_def)
  have c: "generateMesh exampleLoader ?s' [Some twoPointLeaf] = Inr (?msh, ?s'')"
    by (simp add: run_defs twoPointLeaf_def exampleLoader_def)
  from setVoxelMaterial_shared[OF a b c] a b c show ?thesis
    by simp
qed

end
